theory Spec2Isabelle
  imports Complex_Main "HOL-Library.Multiset"
begin

section \<open>JavaScript values reaching the handlers\<close>

text \<open>
  A JavaScript number is an IEEE double: NaN, one of the two infinities, or a finite
  value. Every finite double is a rational; the two zeros are identified, since
  falsiness, \<^verbatim>\<open>isNaN\<close> and the store's equality match do not tell them apart.
\<close>

datatype jsnum = NaN | PosInfinity | NegInfinity | Fin rat

text \<open>
  The body is the object \<^verbatim>\<open>express.json()\<close> parsed. A field of it is absent
  (\<^verbatim>\<open>undefined\<close> after destructuring) or a JSON primitive. Array- and object-valued
  fields are outside this model.
\<close>

datatype jsval = Undefined | Null | Bool bool | Num jsnum | Str string

text \<open>JavaScript truthiness, the negation of what \<^verbatim>\<open>!v\<close> computes.\<close>

fun truthy :: "jsval \<Rightarrow> bool" where
  "truthy Undefined = False"
| "truthy Null = False"
| "truthy (Bool b) = b"
| "truthy (Num n) = (n \<noteq> NaN \<and> n \<noteq> Fin 0)"
| "truthy (Str s) = (s \<noteq> [])"

definition is_digit :: "char \<Rightarrow> bool" where
  "is_digit c = (c \<in> set ''0123456789'')"

definition is_letter :: "char \<Rightarrow> bool" where
  "is_letter c =
     (c \<in> set ''abcdefghijklmnopqrstuvwxyz'' \<or> c \<in> set ''ABCDEFGHIJKLMNOPQRSTUVWXYZ'')"

definition digit_value :: "char \<Rightarrow> nat" where
  "digit_value c = of_char c - 48"

definition decimal_value :: "string \<Rightarrow> nat" where
  "decimal_value s = foldl (\<lambda>acc c. 10 * acc + digit_value c) 0 s"

text \<open>
  The built-in conversion of a string to a number. Three cases are written out: the
  empty string is 0; a string of at most 15 decimal digits is the integer it spells
  (below \<open>2^53\<close>, so exact as a double); a non-empty string of ASCII letters other than
  \<^verbatim>\<open>Infinity\<close> is no numeric literal and gives NaN. Everything else (white space,
  signs, fractions, exponents, hexadecimal, rounding of long literals) is left to the
  parameter \<open>rest\<close>, about which nothing is assumed.
\<close>

definition StringToNumber :: "(string \<Rightarrow> jsnum) \<Rightarrow> string \<Rightarrow> jsnum" where
  "StringToNumber rest s =
     (if s = [] then Fin 0
      else if list_all is_digit s \<and> length s \<le> 15 then Fin (of_nat (decimal_value s))
      else if list_all is_letter s \<and> s \<noteq> ''Infinity'' then NaN
      else rest s)"

text \<open>\<^verbatim>\<open>Number(v)\<close> on the values above.\<close>

fun Number :: "(string \<Rightarrow> jsnum) \<Rightarrow> jsval \<Rightarrow> jsnum" where
  "Number rest Undefined = NaN"
| "Number rest Null = Fin 0"
| "Number rest (Bool b) = (if b then Fin 1 else Fin 0)"
| "Number rest (Num n) = n"
| "Number rest (Str s) = StringToNumber rest s"

text \<open>\<^verbatim>\<open>isNaN\<close> applied to a number.\<close>

definition isNaN :: "jsnum \<Rightarrow> bool" where
  "isNaN n = (n = NaN)"

text \<open>
  A remainder of the string conversion that knows no further literal; it only closes
  the examples below, which never reach it.
\<close>

definition no_further_literals :: "string \<Rightarrow> jsnum" where
  "no_further_literals s = NaN"

section \<open>The document store\<close>

text \<open>
  The five keys of a request body and of a stored document are the same; the body holds
  the raw \<open>nftId\<close>, the document its numeric coercion.
\<close>

record 'a nft_fields =
  nftId :: 'a
  name :: jsval
  description :: jsval
  logoUrl :: jsval
  userWalletAddress :: jsval

type_synonym store_body = "jsval nft_fields"

record nft_doc = "jsnum nft_fields" +
  createdAt :: int
  oid :: nat

text \<open>
  The collection \<^verbatim>\<open>nfts\<close>, in insertion order. \<open>createdAt\<close> is the time of
  \<^verbatim>\<open>new Date()\<close> in milliseconds, \<open>oid\<close> the \<^verbatim>\<open>_id\<close> the driver assigns.
\<close>

type_synonym collection = "nft_doc list"

text \<open>
  Every call of the driver either rejects with an error message or resolves. Which of
  the two happens is decided outside the program, so it is an argument of the call:
  \<open>Some m\<close> is a rejection with message \<open>m\<close>.

  An equality filter of the store compares numbers by value, and in the store's
  comparison order NaN equals NaN (unlike \<^verbatim>\<open>===\<close> in JavaScript), so the filter
  \<^verbatim>\<open>{ nftId: NaN }\<close> matches a stored NaN; on the datatype \<open>jsnum\<close> this is equality. A
  string filter matches exactly the equal string among the primitive values.
\<close>

definition findOne ::
  "string option \<Rightarrow> collection \<Rightarrow> (nft_doc \<Rightarrow> bool) \<Rightarrow> string + nft_doc option" where
  "findOne throws c q = (case throws of Some m \<Rightarrow> Inl m | None \<Rightarrow> Inr (List.find q c))"

definition find_toArray ::
  "string option \<Rightarrow> collection \<Rightarrow> (nft_doc \<Rightarrow> bool) \<Rightarrow> string + nft_doc list" where
  "find_toArray throws c q = (case throws of Some m \<Rightarrow> Inl m | None \<Rightarrow> Inr (filter q c))"

text \<open>
  \<^verbatim>\<open>.sort({ createdAt: -1 })\<close>: newest first. Documents of equal \<open>createdAt\<close> keep
  their insertion order here; no property below depends on that.
\<close>

definition find_sort_toArray ::
  "string option \<Rightarrow> collection \<Rightarrow> (nft_doc \<Rightarrow> bool) \<Rightarrow> string + nft_doc list" where
  "find_sort_toArray throws c q =
     (case throws of Some m \<Rightarrow> Inl m
      | None \<Rightarrow> Inr (sort_key (\<lambda>d. - createdAt d) (filter q c)))"

definition insertOne ::
  "string option \<Rightarrow> collection \<Rightarrow> nft_doc \<Rightarrow> string + (collection \<times> nat)" where
  "insertOne throws c d = (case throws of Some m \<Rightarrow> Inl m | None \<Rightarrow> Inr (c @ [d], oid d))"

section \<open>Responses\<close>

datatype payload = InsertedId nat | Doc nft_doc | Docs "nft_doc list"

record response =
  code :: nat
  status :: string
  message :: "string option"
  data :: "payload option"

definition error_response :: "nat \<Rightarrow> string \<Rightarrow> response" where
  "error_response c m = \<lparr>code = c, status = ''error'', message = Some m, data = None\<rparr>"

section \<open>POST /api/nft/store\<close>

text \<open>
  The handlers are modelled as they run on a connected server: the server listens only
  after \<^verbatim>\<open>connectToMongo\<close> has returned, so the handle \<^verbatim>\<open>db\<close> is assigned and the gate
  in front of the routes lets every request pass.

  What a store handler reads from outside: the clock, the fresh identifier, and the
  outcome of its two driver calls.
\<close>

record store_env =
  now :: int
  insertedId :: nat
  findOne_throws :: "string option"
  insertOne_throws :: "string option"

definition all_fields_required :: string where
  "all_fields_required =
     ''All fields are required: nftId, name, description, logoUrl, userWalletAddress''"

definition new_document :: "(string \<Rightarrow> jsnum) \<Rightarrow> store_env \<Rightarrow> store_body \<Rightarrow> nft_doc" where
  "new_document rest env b =
     \<lparr>nftId = Number rest (nftId b), name = name b, description = description b,
      logoUrl = logoUrl b, userWalletAddress = userWalletAddress b,
      createdAt = now env, oid = insertedId env\<rparr>"

text \<open>The handler of \<^verbatim>\<open>index.js\<close>, with the existence check.\<close>

definition store_index ::
  "(string \<Rightarrow> jsnum) \<Rightarrow> store_env \<Rightarrow> collection \<Rightarrow> store_body \<Rightarrow> response \<times> collection" where
  "store_index rest env c b =
     (if \<not> truthy (nftId b) \<or> \<not> truthy (name b) \<or> \<not> truthy (description b)
         \<or> \<not> truthy (logoUrl b) \<or> \<not> truthy (userWalletAddress b)
      then (error_response 400 all_fields_required, c)
      else case findOne (findOne_throws env) c (\<lambda>d. nftId d = Number rest (nftId b)) of
        Inl e \<Rightarrow> (error_response 500 ''Internal server error while storing NFT'', c)
      | Inr (Some existingNFT) \<Rightarrow> (error_response 400 ''NFT with this ID already exists'', c)
      | Inr None \<Rightarrow>
          (case insertOne (insertOne_throws env) c (new_document rest env b) of
             Inl e \<Rightarrow> (error_response 500 ''Internal server error while storing NFT'', c)
           | Inr (c', i) \<Rightarrow>
               (\<lparr>code = 201, status = ''success'',
                 message = Some ''NFT data stored successfully'',
                 data = Some (InsertedId i)\<rparr>, c')))"

text \<open>The handler of \<^verbatim>\<open>part_001\<close>, line for line the one of \<^verbatim>\<open>index.js\<close>.\<close>

definition store_part_001 ::
  "(string \<Rightarrow> jsnum) \<Rightarrow> store_env \<Rightarrow> collection \<Rightarrow> store_body \<Rightarrow> response \<times> collection" where
  "store_part_001 rest env c b =
     (if \<not> truthy (nftId b) \<or> \<not> truthy (name b) \<or> \<not> truthy (description b)
         \<or> \<not> truthy (logoUrl b) \<or> \<not> truthy (userWalletAddress b)
      then (error_response 400 all_fields_required, c)
      else case findOne (findOne_throws env) c (\<lambda>d. nftId d = Number rest (nftId b)) of
        Inl e \<Rightarrow> (error_response 500 ''Internal server error while storing NFT'', c)
      | Inr (Some existingNFT) \<Rightarrow> (error_response 400 ''NFT with this ID already exists'', c)
      | Inr None \<Rightarrow>
          (case insertOne (insertOne_throws env) c (new_document rest env b) of
             Inl e \<Rightarrow> (error_response 500 ''Internal server error while storing NFT'', c)
           | Inr (c', i) \<Rightarrow>
               (\<lparr>code = 201, status = ''success'',
                 message = Some ''NFT data stored successfully'',
                 data = Some (InsertedId i)\<rparr>, c')))"

text \<open>The handler of \<^verbatim>\<open>part_000\<close>: no existence check, no \<open>data\<close> in the reply,
  and a caught error answered with 400 and its own message.\<close>

definition store_part_000 ::
  "(string \<Rightarrow> jsnum) \<Rightarrow> store_env \<Rightarrow> collection \<Rightarrow> store_body \<Rightarrow> response \<times> collection" where
  "store_part_000 rest env c b =
     (if \<not> truthy (nftId b) \<or> \<not> truthy (name b) \<or> \<not> truthy (description b)
         \<or> \<not> truthy (logoUrl b) \<or> \<not> truthy (userWalletAddress b)
      then (error_response 400 all_fields_required, c)
      else case insertOne (insertOne_throws env) c (new_document rest env b) of
        Inl e \<Rightarrow> (error_response 400 e, c)
      | Inr (c', i) \<Rightarrow>
          (\<lparr>code = 201, status = ''success'',
            message = Some ''NFT data stored successfully'', data = None\<rparr>, c'))"

section \<open>GET /api/nft/:nftId\<close>

text \<open>\<^verbatim>\<open>part_001\<close>: the identifier is coerced and checked before the lookup.\<close>

definition get_nft_part_001 ::
  "(string \<Rightarrow> jsnum) \<Rightarrow> string option \<Rightarrow> collection \<Rightarrow> string \<Rightarrow> response" where
  "get_nft_part_001 rest throws c param =
     (let n = Number rest (Str param) in
      if isNaN n then error_response 400 ''Invalid NFT ID format''
      else case findOne throws c (\<lambda>d. nftId d = n) of
        Inl e \<Rightarrow> error_response 500 ''Internal server error while retrieving NFT''
      | Inr None \<Rightarrow> error_response 404 ''NFT not found''
      | Inr (Some nft) \<Rightarrow>
          \<lparr>code = 200, status = ''success'', message = None, data = Some (Doc nft)\<rparr>)"

text \<open>\<^verbatim>\<open>part_000\<close>: the coerced identifier goes to the lookup as it is.\<close>

definition get_nft_part_000 ::
  "(string \<Rightarrow> jsnum) \<Rightarrow> string option \<Rightarrow> collection \<Rightarrow> string \<Rightarrow> response" where
  "get_nft_part_000 rest throws c param =
     (case findOne throws c (\<lambda>d. nftId d = Number rest (Str param)) of
        Inl e \<Rightarrow> error_response 400 e
      | Inr None \<Rightarrow> error_response 404 ''NFT not found''
      | Inr (Some nft) \<Rightarrow>
          \<lparr>code = 200, status = ''success'', message = None, data = Some (Doc nft)\<rparr>)"

section \<open>GET /api/nft/gallery/:userWalletAddress\<close>

definition gallery_part_001 :: "string option \<Rightarrow> collection \<Rightarrow> string \<Rightarrow> response" where
  "gallery_part_001 throws c addr =
     (if addr = [] then error_response 400 ''Wallet address is required''
      else case find_sort_toArray throws c (\<lambda>d. userWalletAddress d = Str addr) of
        Inl e \<Rightarrow> error_response 500 ''Internal server error while retrieving NFT gallery''
      | Inr nfts \<Rightarrow>
          if length nfts = 0 then error_response 404 ''No NFTs found for this wallet address''
          else \<lparr>code = 200, status = ''success'', message = None, data = Some (Docs nfts)\<rparr>)"

definition gallery_part_000 :: "string option \<Rightarrow> collection \<Rightarrow> string \<Rightarrow> response" where
  "gallery_part_000 throws c addr =
     (case find_toArray throws c (\<lambda>d. userWalletAddress d = Str addr) of
        Inl e \<Rightarrow> error_response 400 e
      | Inr nfts \<Rightarrow>
          \<lparr>code = 200, status = ''success'', message = None, data = Some (Docs nfts)\<rparr>)"

section \<open>connectToMongo\<close>

text \<open>
  What the loop does that can be seen from outside: the try body of iteration \<open>i\<close>
  (\<^verbatim>\<open>client.connect()\<close>, then the ping), and the five-second wait.
\<close>

datatype event = Attempt nat | Sleep nat

record conn_state =
  db :: bool
  trace :: "event list"

text \<open>
  \<open>tries i\<close> is the outcome of the try body of iteration \<open>i\<close>: \<open>None\<close> when it runs
  to its \<^verbatim>\<open>return true\<close>, \<open>Some error\<close> when one of its calls throws. \<open>retries\<close> is
  an attempt count, a natural number; inside the loop \<open>i < retries\<close>, so \<open>retries - 1\<close>
  is exact. \<open>db\<close> records whether the handle has been assigned.
\<close>

function connectToMongo_loop ::
  "(nat \<Rightarrow> string option) \<Rightarrow> nat \<Rightarrow> nat \<Rightarrow> conn_state \<Rightarrow> (string + bool) \<times> conn_state" where
  "connectToMongo_loop tries retries i st =
     (if i < retries then
        (case tries i of
           None \<Rightarrow> (Inr True, st\<lparr>db := True, trace := trace st @ [Attempt i]\<rparr>)
         | Some error \<Rightarrow>
             if i = retries - 1 then (Inl error, st\<lparr>trace := trace st @ [Attempt i]\<rparr>)
             else connectToMongo_loop tries retries (i + 1)
                    (st\<lparr>trace := trace st @ [Attempt i, Sleep 5000]\<rparr>))
      else (Inr False, st))"
  by pat_completeness auto
termination
  by (relation "measure (\<lambda>(tries, retries, i, st). retries - i)") auto

declare connectToMongo_loop.simps [simp del]

definition connectToMongo ::
  "(nat \<Rightarrow> string option) \<Rightarrow> nat \<Rightarrow> (string + bool) \<times> conn_state" where
  "connectToMongo tries retries =
     connectToMongo_loop tries retries 0 \<lparr>db = False, trace = []\<rparr>"

text \<open>The failed attempts \<open>i, \<dots>, k - 1\<close>, each followed by its wait.\<close>

definition failed_rounds :: "nat \<Rightarrow> nat \<Rightarrow> event list" where
  "failed_rounds i k = concat (map (\<lambda>j. [Attempt j, Sleep 5000]) [i..<k])"

fun is_attempt :: "event \<Rightarrow> bool" where
  "is_attempt (Attempt i) = True"
| "is_attempt (Sleep ms) = False"

definition attempts :: "event list \<Rightarrow> nat" where
  "attempts tr = length (filter is_attempt tr)"

section \<open>Vocabulary of the properties\<close>

text \<open>The presence test of the store handlers passes.\<close>

definition all_present :: "store_body \<Rightarrow> bool" where
  "all_present b =
     (truthy (nftId b) \<and> truthy (name b) \<and> truthy (description b)
      \<and> truthy (logoUrl b) \<and> truthy (userWalletAddress b))"

text \<open>The documents a reply carries as a list.\<close>

definition returned_docs :: "response \<Rightarrow> nft_doc list" where
  "returned_docs r = (case data r of Some (Docs ds) \<Rightarrow> ds | _ \<Rightarrow> [])"

definition created_reply :: "payload option \<Rightarrow> response" where
  "created_reply p =
     \<lparr>code = 201, status = ''success'', message = Some ''NFT data stored successfully'',
      data = p\<rparr>"

definition success_reply :: "payload \<Rightarrow> response" where
  "success_reply p = \<lparr>code = 200, status = ''success'', message = None, data = Some p\<rparr>"

section \<open>Sample inputs\<close>

text \<open>The record of the scenario: identifier 1, owned by wallet \<^verbatim>\<open>0xabc\<close>.\<close>

definition sample_body :: store_body where
  "sample_body =
     \<lparr>nftId = Num (Fin 1), name = Str ''A'', description = Str ''d'',
      logoUrl = Str ''http://x'', userWalletAddress = Str ''0xabc''\<rparr>"

text \<open>A request served at time 1000 with fresh identifier 1, the driver resolving.\<close>

definition sample_env :: store_env where
  "sample_env =
     \<lparr>now = 1000, insertedId = 1, findOne_throws = None, insertOne_throws = None\<rparr>"

text \<open>A stored document made from a body: its identifier, creation time and \<open>_id\<close>.\<close>

definition sample_doc :: "jsnum \<Rightarrow> int \<Rightarrow> nat \<Rightarrow> nft_doc" where
  "sample_doc n t i =
     \<lparr>nftId = n, name = Str ''A'', description = Str ''d'', logoUrl = Str ''http://x'',
      userWalletAddress = Str ''0xabc'', createdAt = t, oid = i\<rparr>"

text \<open>Connection attempts that fail twice and then succeed, and that always fail.\<close>

definition third_try_succeeds :: "nat \<Rightarrow> string option" where
  "third_try_succeeds i = (if i < 2 then Some ''timeout'' else None)"

definition always_refused :: "nat \<Rightarrow> string option" where
  "always_refused i = Some (if i = 4 then ''refused at last'' else ''refused'')"

text \<open>Three documents of wallet \<^verbatim>\<open>0xabc\<close> with distinct creation times, and one of
  another wallet.\<close>

definition gallery_sample :: collection where
  "gallery_sample =
     [sample_doc (Fin 1) 100 0, sample_doc (Fin 2) 300 1,
      (sample_doc (Fin 4) 400 3)\<lparr>userWalletAddress := Str ''0xdef''\<rparr>,
      sample_doc (Fin 3) 200 2]"

section \<open>Facts shared by the properties\<close>

lemma store_index_rejects:
  "\<not> all_present b \<Longrightarrow> store_index rest env c b = (error_response 400 all_fields_required, c)"
  by (auto simp: store_index_def all_present_def)

lemma store_part_001_rejects:
  "\<not> all_present b \<Longrightarrow> store_part_001 rest env c b = (error_response 400 all_fields_required, c)"
  by (auto simp: store_part_001_def all_present_def)

lemma store_part_000_rejects:
  "\<not> all_present b \<Longrightarrow> store_part_000 rest env c b = (error_response 400 all_fields_required, c)"
  by (auto simp: store_part_000_def all_present_def)

lemma store_index_creates:
  assumes "all_present b" "\<forall>d\<in>set c. nftId d \<noteq> Number rest (nftId b)"
    "findOne_throws env = None" "insertOne_throws env = None"
  shows "store_index rest env c b =
    (created_reply (Some (InsertedId (insertedId env))), c @ [new_document rest env b])"
  using assms
  by (simp add: store_index_def all_present_def findOne_def insertOne_def find_None_iff[THEN iffD2]
      created_reply_def new_document_def)

lemma store_part_001_creates:
  assumes "all_present b" "\<forall>d\<in>set c. nftId d \<noteq> Number rest (nftId b)"
    "findOne_throws env = None" "insertOne_throws env = None"
  shows "store_part_001 rest env c b =
    (created_reply (Some (InsertedId (insertedId env))), c @ [new_document rest env b])"
  using assms
  by (simp add: store_part_001_def all_present_def findOne_def insertOne_def find_None_iff[THEN iffD2]
      created_reply_def new_document_def)

lemma store_part_000_creates:
  assumes "all_present b" "insertOne_throws env = None"
  shows "store_part_000 rest env c b = (created_reply None, c @ [new_document rest env b])"
  using assms
  by (simp add: store_part_000_def all_present_def insertOne_def created_reply_def)

lemma find_appended:
  "\<forall>d\<in>set c. \<not> P d \<Longrightarrow> P x \<Longrightarrow> List.find P (c @ [x]) = Some x"
  by (induction c) auto

lemma find_present:
  "\<exists>d\<in>set c. P d \<Longrightarrow> \<exists>d. List.find P c = Some d \<and> d \<in> set c \<and> P d"
  by (induction c) auto

lemma nftId_new_document: "nftId (new_document rest env b) = Number rest (nftId b)"
  by (simp add: new_document_def)

lemma Number_abc: "Number rest (Str ''abc'') = NaN"
  by (simp add: StringToNumber_def is_digit_def is_letter_def)

lemma Number_digit_0: "Number rest (Str ''0'') = Fin 0"
  by (simp add: StringToNumber_def is_digit_def decimal_value_def digit_value_def)

lemma Number_digit_1: "Number rest (Str ''1'') = Fin 1"
  by (simp add: StringToNumber_def is_digit_def decimal_value_def digit_value_def)

lemma Number_digit_7: "Number rest (Str ''7'') = Fin 7"
  by (simp add: StringToNumber_def is_digit_def decimal_value_def digit_value_def)

lemma sample_body_fields:
  "nftId sample_body = Num (Fin 1)" "name sample_body = Str ''A''"
  "description sample_body = Str ''d''" "logoUrl sample_body = Str ''http://x''"
  "userWalletAddress sample_body = Str ''0xabc''"
  by (simp_all add: sample_body_def)

lemma sample_env_fields:
  "now sample_env = 1000" "insertedId sample_env = 1"
  "findOne_throws sample_env = None" "insertOne_throws sample_env = None"
  by (simp_all add: sample_env_def)

lemma all_present_sample: "all_present sample_body"
  by (simp add: all_present_def sample_body_fields)


lemma store_part_001_conflict:
  assumes "all_present b" "d \<in> set c" "nftId d = Number rest (nftId b)"
    "findOne_throws env = None"
  shows "store_part_001 rest env c b = (error_response 400 ''NFT with this ID already exists'', c)"
proof -
  have "\<exists>d\<in>set c. nftId d = Number rest (nftId b)" using assms(2,3) by (rule bexI[rotated])
  from find_present [of c "\<lambda>d. nftId d = Number rest (nftId b)", OF this]
  obtain e where "List.find (\<lambda>d. nftId d = Number rest (nftId b)) c = Some e"
    by (elim exE conjE)
  with assms(1,4) show ?thesis
    by (simp add: store_part_001_def all_present_def findOne_def)
qed


lemma sample_doc_fields:
  "nftId (sample_doc n t i) = n" "userWalletAddress (sample_doc n t i) = Str ''0xabc''"
  "createdAt (sample_doc n t i) = t" "oid (sample_doc n t i) = i"
  by (simp_all add: sample_doc_def)

lemma find_SomeD: "List.find P xs = Some x \<Longrightarrow> x \<in> set xs \<and> P x"
  by (induction xs) (auto split: if_splits)

section \<open>Create, then look up\<close>

text \<open>
  C1 (as amended). In \<^verbatim>\<open>part_001\<close>, take a store request whose five fields all pass the
  presence test, whose \<open>nftId\<close> coerces to a number other than NaN that no stored
  document carries, and let the driver calls resolve. Then the request is answered 201
  with the assigned identifier, and a lookup on the resulting collection, under any path
  parameter that coerces to the same number, answers 200 with a document whose five
  fields are those of the request (\<open>nftId\<close> coerced), whose \<open>createdAt\<close> is the time of
  the request and whose \<open>_id\<close> is the assigned identifier.
\<close>

theorem create_then_getById:
  assumes "all_present b"
    and "Number rest (nftId b) \<noteq> NaN"
    and "\<forall>d\<in>set c. nftId d \<noteq> Number rest (nftId b)"
    and "findOne_throws env = None" and "insertOne_throws env = None"
    and "Number rest (Str param) = Number rest (nftId b)"
  shows "fst (store_part_001 rest env c b) = created_reply (Some (InsertedId (insertedId env)))
    \<and> get_nft_part_001 rest None (snd (store_part_001 rest env c b)) param =
        success_reply (Doc \<lparr>nftId = Number rest (nftId b), name = name b,
          description = description b, logoUrl = logoUrl b,
          userWalletAddress = userWalletAddress b,
          createdAt = now env, oid = insertedId env\<rparr>)"
proof -
  let ?n = "Number rest (nftId b)"
  have st: "store_part_001 rest env c b =
      (created_reply (Some (InsertedId (insertedId env))), c @ [new_document rest env b])"
    using assms(1,3,4,5) by (rule store_part_001_creates)
  have fnd: "List.find (\<lambda>d. nftId d = ?n) (c @ [new_document rest env b])
      = Some (new_document rest env b)"
    using assms(3) by (intro find_appended) (simp_all add: nftId_new_document)
  have "get_nft_part_001 rest None (c @ [new_document rest env b]) param =
      success_reply (Doc (new_document rest env b))"
    using assms(2,6) fnd
    by (simp add: get_nft_part_001_def isNaN_def findOne_def success_reply_def del: Number.simps)
  with st show ?thesis by (simp add: new_document_def)
qed

text \<open>The scenario record, stored into the empty collection and fetched as \<^verbatim>\<open>/api/nft/1\<close>.\<close>

theorem create_then_getById_witness:
  "all_present sample_body
   \<and> fst (store_part_001 no_further_literals sample_env [] sample_body)
       = created_reply (Some (InsertedId 1))
   \<and> get_nft_part_001 no_further_literals None
       (snd (store_part_001 no_further_literals sample_env [] sample_body)) ''1''
       = success_reply (Doc (sample_doc (Fin 1) 1000 1))"
proof -
  have n: "Number no_further_literals (nftId sample_body) = Fin 1"
    by (simp add: sample_body_fields)
  have "fst (store_part_001 no_further_literals sample_env [] sample_body)
          = created_reply (Some (InsertedId (insertedId sample_env)))
      \<and> get_nft_part_001 no_further_literals None
          (snd (store_part_001 no_further_literals sample_env [] sample_body)) ''1'' =
        success_reply (Doc \<lparr>nftId = Number no_further_literals (nftId sample_body),
          name = name sample_body, description = description sample_body,
          logoUrl = logoUrl sample_body,
          userWalletAddress = userWalletAddress sample_body,
          createdAt = now sample_env, oid = insertedId sample_env\<rparr>)"
    by (rule create_then_getById)
       (simp_all add: all_present_sample n Number_digit_1 sample_env_fields del: Number.simps)
  then show ?thesis
    by (simp add: all_present_sample sample_body_fields sample_env_fields sample_doc_def)
qed

text \<open>
  Without the condition on NaN the property fails: the body with \<open>nftId\<close> \<^verbatim>\<open>"abc"\<close>
  passes the presence test and is stored with 201, and \<^verbatim>\<open>GET /api/nft/abc\<close> is
  answered 400 by the format check.
\<close>

theorem create_then_getById_counterexample:
  "all_present (sample_body\<lparr>nftId := Str ''abc''\<rparr>)
   \<and> fst (store_part_001 no_further_literals sample_env [] (sample_body\<lparr>nftId := Str ''abc''\<rparr>))
       = created_reply (Some (InsertedId 1))
   \<and> get_nft_part_001 no_further_literals None
       (snd (store_part_001 no_further_literals sample_env [] (sample_body\<lparr>nftId := Str ''abc''\<rparr>)))
       ''abc''
       = error_response 400 ''Invalid NFT ID format''"
proof -
  have p: "all_present (sample_body\<lparr>nftId := Str ''abc''\<rparr>)"
    by (simp add: all_present_def sample_body_fields)
  have s: "store_part_001 no_further_literals sample_env [] (sample_body\<lparr>nftId := Str ''abc''\<rparr>)
      = (created_reply (Some (InsertedId (insertedId sample_env))),
         [] @ [new_document no_further_literals sample_env (sample_body\<lparr>nftId := Str ''abc''\<rparr>)])"
    by (rule store_part_001_creates) (simp_all add: p sample_env_fields)
  have g: "get_nft_part_001 no_further_literals None c ''abc''
      = error_response 400 ''Invalid NFT ID format''" for c
    by (simp add: get_nft_part_001_def isNaN_def Number_abc del: Number.simps)
  show ?thesis by (simp add: p s g sample_env_fields)
qed

section \<open>Duplicate identifiers\<close>



section \<open>The gallery of a wallet\<close>

lemma sorted_newest_first:
  "sorted_wrt (\<lambda>x y. createdAt y \<le> createdAt x) (sort_key (\<lambda>d. - createdAt d) xs)"
proof -
  have "sorted (map (\<lambda>d. - createdAt d) (sort_key (\<lambda>d. - createdAt d) xs))"
    by (rule sorted_sort_key)
  then show ?thesis by (simp add: sorted_map)
qed

lemma gallery_part_001_returned:
  "addr \<noteq> [] \<Longrightarrow> returned_docs (gallery_part_001 None c addr)
     = sort_key (\<lambda>d. - createdAt d) (filter (\<lambda>d. userWalletAddress d = Str addr) c)"
  by (cases "sort_key (\<lambda>d. - createdAt d) (filter (\<lambda>d. userWalletAddress d = Str addr) c)")
     (simp_all add: gallery_part_001_def find_sort_toArray_def returned_docs_def
        error_response_def)

lemma gallery_part_001_success:
  assumes "addr \<noteq> []" and "\<exists>d\<in>set c. userWalletAddress d = Str addr"
  shows "code (gallery_part_001 None c addr) = 200
    \<and> status (gallery_part_001 None c addr) = ''success''
    \<and> data (gallery_part_001 None c addr)
        = Some (Docs (returned_docs (gallery_part_001 None c addr)))"
proof -
  let ?r = "sort_key (\<lambda>d. - createdAt d) (filter (\<lambda>d. userWalletAddress d = Str addr) c)"
  from assms(2) have ne: "filter (\<lambda>d. userWalletAddress d = Str addr) c \<noteq> []"
    by (simp add: filter_empty_conv)
  have g: "gallery_part_001 None c addr = success_reply (Docs ?r)"
    using assms(1) ne
    by (simp add: gallery_part_001_def find_sort_toArray_def success_reply_def)
  have r: "returned_docs (gallery_part_001 None c addr) = ?r"
    using assms(1) by (rule gallery_part_001_returned)
  show ?thesis
    unfolding r unfolding g by (simp add: success_reply_def)
qed

text \<open>
  C3. When the query resolves, the gallery of \<^verbatim>\<open>part_000\<close> is answered 200 with exactly
  the stored documents whose \<open>userWalletAddress\<close> is the address, in insertion order. The
  gallery of \<^verbatim>\<open>part_001\<close>, for the non-empty address a route parameter is, carries
  exactly those documents, each as often as it is stored, ordered by \<open>createdAt\<close>
  descending; when there is at least one, they are the \<open>data\<close> of a reply 200.
\<close>

theorem listByWallet_exact:
  "gallery_part_000 None c addr
     = success_reply (Docs (filter (\<lambda>d. userWalletAddress d = Str addr) c))
   \<and> (addr \<noteq> [] \<longrightarrow>
        mset (returned_docs (gallery_part_001 None c addr))
          = mset (filter (\<lambda>d. userWalletAddress d = Str addr) c)
        \<and> sorted_wrt (\<lambda>x y. createdAt y \<le> createdAt x)
            (returned_docs (gallery_part_001 None c addr))
        \<and> ((\<exists>d\<in>set c. userWalletAddress d = Str addr) \<longrightarrow>
             code (gallery_part_001 None c addr) = 200
             \<and> status (gallery_part_001 None c addr) = ''success''
             \<and> data (gallery_part_001 None c addr)
                 = Some (Docs (returned_docs (gallery_part_001 None c addr)))))"
proof (intro conjI impI)
  show "gallery_part_000 None c addr
     = success_reply (Docs (filter (\<lambda>d. userWalletAddress d = Str addr) c))"
    by (simp add: gallery_part_000_def find_toArray_def success_reply_def)
next
  assume a: "addr \<noteq> []"
  show "mset (returned_docs (gallery_part_001 None c addr))
          = mset (filter (\<lambda>d. userWalletAddress d = Str addr) c)"
    by (simp add: gallery_part_001_returned [OF a])
  show "sorted_wrt (\<lambda>x y. createdAt y \<le> createdAt x)
            (returned_docs (gallery_part_001 None c addr))"
    by (simp add: gallery_part_001_returned [OF a] sorted_newest_first)
  assume e: "\<exists>d\<in>set c. userWalletAddress d = Str addr"
  from gallery_part_001_success [OF a e]
  show "code (gallery_part_001 None c addr) = 200"
    by (rule conjunct1)
  from gallery_part_001_success [OF a e]
  show "status (gallery_part_001 None c addr) = ''success''"
    by (rule conjunct2 [THEN conjunct1])
  from gallery_part_001_success [OF a e]
  show "data (gallery_part_001 None c addr)
                 = Some (Docs (returned_docs (gallery_part_001 None c addr)))"
    by (rule conjunct2 [THEN conjunct2])
qed

text \<open>Three documents of the wallet with creation times 100, 300 and 200.\<close>

theorem listByWallet_exact_witness:
  "''0xabc'' \<noteq> []
   \<and> gallery_part_000 None gallery_sample ''0xabc''
       = success_reply (Docs [sample_doc (Fin 1) 100 0, sample_doc (Fin 2) 300 1,
           sample_doc (Fin 3) 200 2])
   \<and> gallery_part_001 None gallery_sample ''0xabc''
       = success_reply
           (Docs [sample_doc (Fin 2) 300 1, sample_doc (Fin 3) 200 2, sample_doc (Fin 1) 100 0])
   \<and> mset (returned_docs (gallery_part_001 None gallery_sample ''0xabc''))
       = mset [sample_doc (Fin 1) 100 0, sample_doc (Fin 2) 300 1, sample_doc (Fin 3) 200 2]
   \<and> sorted_wrt (\<lambda>x y. createdAt y \<le> createdAt x)
        (returned_docs (gallery_part_001 None gallery_sample ''0xabc''))"
proof -
  have f: "filter (\<lambda>d. userWalletAddress d = Str ''0xabc'') gallery_sample
      = [sample_doc (Fin 1) 100 0, sample_doc (Fin 2) 300 1, sample_doc (Fin 3) 200 2]"
    by (simp add: gallery_sample_def sample_doc_fields)
  have r: "gallery_part_001 None gallery_sample ''0xabc''
      = success_reply
          (Docs [sample_doc (Fin 2) 300 1, sample_doc (Fin 3) 200 2, sample_doc (Fin 1) 100 0])"
    by (simp add: gallery_part_001_def find_sort_toArray_def f success_reply_def
        sample_doc_fields)
  have a: "''0xabc'' \<noteq> []" by simp
  from listByWallet_exact [of gallery_sample "''0xabc''"] a
  have t: "gallery_part_000 None gallery_sample ''0xabc''
       = success_reply (Docs (filter (\<lambda>d. userWalletAddress d = Str ''0xabc'') gallery_sample))
     \<and> mset (returned_docs (gallery_part_001 None gallery_sample ''0xabc''))
          = mset (filter (\<lambda>d. userWalletAddress d = Str ''0xabc'') gallery_sample)
     \<and> sorted_wrt (\<lambda>x y. createdAt y \<le> createdAt x)
            (returned_docs (gallery_part_001 None gallery_sample ''0xabc''))"
    by blast
  from t r a show ?thesis unfolding f by blast
qed

section \<open>Requests with a missing field\<close>

text \<open>
  C4. A store request in which at least one of the five fields is absent is answered, in
  each of the three handlers, with 400 and the error envelope, whatever the driver would
  do; the collection is left as it was, so a later lookup sees what it saw before and
  finds no document of this request.
\<close>

theorem missing_field_rejected:
  assumes "nftId b = Undefined \<or> name b = Undefined \<or> description b = Undefined
    \<or> logoUrl b = Undefined \<or> userWalletAddress b = Undefined"
  shows "store_index rest env c b = (error_response 400 all_fields_required, c)
    \<and> store_part_000 rest env c b = (error_response 400 all_fields_required, c)
    \<and> store_part_001 rest env c b = (error_response 400 all_fields_required, c)
    \<and> get_nft_part_000 rest throws (snd (store_part_000 rest env c b)) param
        = get_nft_part_000 rest throws c param
    \<and> get_nft_part_001 rest throws (snd (store_part_001 rest env c b)) param
        = get_nft_part_001 rest throws c param"
proof -
  from assms have "\<not> all_present b"
    by (auto simp: all_present_def)
  then show ?thesis
    by (simp add: store_index_rejects store_part_000_rejects store_part_001_rejects)
qed

text \<open>The scenario record without its \<open>name\<close>, sent to an empty collection.\<close>

theorem missing_field_rejected_witness:
  "name (sample_body\<lparr>name := Undefined\<rparr>) = Undefined
   \<and> store_index no_further_literals sample_env [] (sample_body\<lparr>name := Undefined\<rparr>)
       = (error_response 400 all_fields_required, [])
   \<and> store_part_000 no_further_literals sample_env [] (sample_body\<lparr>name := Undefined\<rparr>)
       = (error_response 400 all_fields_required, [])
   \<and> get_nft_part_000 no_further_literals None
       (snd (store_part_000 no_further_literals sample_env [] (sample_body\<lparr>name := Undefined\<rparr>))) ''1''
       = error_response 404 ''NFT not found''"
proof -
  have h: "nftId (sample_body\<lparr>name := Undefined\<rparr>) = Undefined
    \<or> name (sample_body\<lparr>name := Undefined\<rparr>) = Undefined
    \<or> description (sample_body\<lparr>name := Undefined\<rparr>) = Undefined
    \<or> logoUrl (sample_body\<lparr>name := Undefined\<rparr>) = Undefined
    \<or> userWalletAddress (sample_body\<lparr>name := Undefined\<rparr>) = Undefined"
    by simp
  have g: "get_nft_part_000 no_further_literals None [] ''1'' = error_response 404 ''NFT not found''"
    by (simp add: get_nft_part_000_def findOne_def)
  show ?thesis
    using missing_field_rejected [OF h, of no_further_literals sample_env "[]" None "''1''"] g
    by simp
qed

section \<open>Lookup by identifier\<close>

lemma Number_digit_999: "Number rest (Str ''999'') = Fin 999"
  by (simp add: StringToNumber_def is_digit_def decimal_value_def digit_value_def)

text \<open>
  C5. Let the path parameter coerce to a number other than NaN and the lookup resolve.
  In both variants: the first stored document with that \<open>nftId\<close>, when there is one, is
  returned with 200 and status success; and when no stored document has that \<open>nftId\<close> the
  answer is 404 with status error.
\<close>

theorem getById_found_or_NotFound:
  assumes "Number rest (Str param) \<noteq> NaN"
  shows "(\<forall>d. List.find (\<lambda>d. nftId d = Number rest (Str param)) c = Some d \<longrightarrow>
            d \<in> set c \<and> nftId d = Number rest (Str param)
            \<and> get_nft_part_001 rest None c param = success_reply (Doc d)
            \<and> get_nft_part_000 rest None c param = success_reply (Doc d))
    \<and> ((\<exists>d\<in>set c. nftId d = Number rest (Str param)) \<longrightarrow>
          code (get_nft_part_001 rest None c param) = 200
          \<and> status (get_nft_part_001 rest None c param) = ''success''
          \<and> code (get_nft_part_000 rest None c param) = 200
          \<and> status (get_nft_part_000 rest None c param) = ''success'')
    \<and> ((\<forall>d\<in>set c. nftId d \<noteq> Number rest (Str param)) \<longrightarrow>
          get_nft_part_001 rest None c param = error_response 404 ''NFT not found''
          \<and> get_nft_part_000 rest None c param = error_response 404 ''NFT not found'')"
proof (intro conjI allI impI)
  fix d assume f: "List.find (\<lambda>d. nftId d = Number rest (Str param)) c = Some d"
  from find_SomeD [OF f] show "d \<in> set c" by (rule conjunct1)
  from find_SomeD [OF f] show "nftId d = Number rest (Str param)" by (rule conjunct2)
  from f assms show "get_nft_part_001 rest None c param = success_reply (Doc d)"
    by (simp add: get_nft_part_001_def isNaN_def findOne_def success_reply_def Let_def
        del: Number.simps)
  from f show "get_nft_part_000 rest None c param = success_reply (Doc d)"
    by (simp add: get_nft_part_000_def findOne_def success_reply_def del: Number.simps)
next
  assume "\<exists>d\<in>set c. nftId d = Number rest (Str param)"
  from find_present [of c "\<lambda>d. nftId d = Number rest (Str param)", OF this]
  obtain e where f: "List.find (\<lambda>d. nftId d = Number rest (Str param)) c = Some e"
    by (elim exE conjE)
  from f assms show "code (get_nft_part_001 rest None c param) = 200"
    "status (get_nft_part_001 rest None c param) = ''success''"
    by (simp_all add: get_nft_part_001_def isNaN_def findOne_def Let_def del: Number.simps)
  from f show "code (get_nft_part_000 rest None c param) = 200"
    "status (get_nft_part_000 rest None c param) = ''success''"
    by (simp_all add: get_nft_part_000_def findOne_def del: Number.simps)
next
  assume "\<forall>d\<in>set c. nftId d \<noteq> Number rest (Str param)"
  then have f: "List.find (\<lambda>d. nftId d = Number rest (Str param)) c = None"
    by (simp add: find_None_iff)
  from f assms show "get_nft_part_001 rest None c param = error_response 404 ''NFT not found''"
    by (simp add: get_nft_part_001_def isNaN_def findOne_def Let_def del: Number.simps)
  from f show "get_nft_part_000 rest None c param = error_response 404 ''NFT not found''"
    by (simp add: get_nft_part_000_def findOne_def del: Number.simps)
qed

text \<open>The scenario: \<^verbatim>\<open>GET /api/nft/1\<close> finds the record, \<^verbatim>\<open>GET /api/nft/999\<close> does not.\<close>

theorem getById_found_or_NotFound_witness:
  "Number no_further_literals (Str ''1'') \<noteq> NaN
   \<and> Number no_further_literals (Str ''999'') \<noteq> NaN
   \<and> get_nft_part_001 no_further_literals None [sample_doc (Fin 1) 1000 1] ''1''
       = success_reply (Doc (sample_doc (Fin 1) 1000 1))
   \<and> get_nft_part_000 no_further_literals None [sample_doc (Fin 1) 1000 1] ''1''
       = success_reply (Doc (sample_doc (Fin 1) 1000 1))
   \<and> get_nft_part_001 no_further_literals None [sample_doc (Fin 1) 1000 1] ''999''
       = error_response 404 ''NFT not found''
   \<and> get_nft_part_000 no_further_literals None [sample_doc (Fin 1) 1000 1] ''999''
       = error_response 404 ''NFT not found''"
proof -
  let ?c = "[sample_doc (Fin 1) 1000 1]"
  have a: "Number no_further_literals (Str ''1'') \<noteq> NaN"
    by (simp add: Number_digit_1 del: Number.simps)
  have b: "Number no_further_literals (Str ''999'') \<noteq> NaN"
    by (simp add: Number_digit_999 del: Number.simps)
  have f: "List.find (\<lambda>d. nftId d = Number no_further_literals (Str ''1'')) ?c
      = Some (sample_doc (Fin 1) 1000 1)"
    by (simp add: Number_digit_1 sample_doc_fields del: Number.simps)
  have g: "\<forall>d\<in>set ?c. nftId d \<noteq> Number no_further_literals (Str ''999'')"
    by (simp add: Number_digit_999 sample_doc_fields del: Number.simps)
  from getById_found_or_NotFound [OF a, of ?c] f
  have found: "get_nft_part_001 no_further_literals None ?c ''1''
        = success_reply (Doc (sample_doc (Fin 1) 1000 1))
      \<and> get_nft_part_000 no_further_literals None ?c ''1''
        = success_reply (Doc (sample_doc (Fin 1) 1000 1))"
    by blast
  from getById_found_or_NotFound [OF b, of ?c] g
  have missing: "get_nft_part_001 no_further_literals None ?c ''999''
        = error_response 404 ''NFT not found''
      \<and> get_nft_part_000 no_further_literals None ?c ''999''
        = error_response 404 ''NFT not found''"
    by blast
  from a b found missing show ?thesis by blast
qed

section \<open>The gallery of a wallet without documents\<close>

text \<open>
  C6. For an address that no stored document carries, the query resolving, \<^verbatim>\<open>part_000\<close>
  answers 200 with an empty \<open>data\<close> array, and \<^verbatim>\<open>part_001\<close>, which tests the length of
  the result, answers 404 with status error.
\<close>

theorem listByWallet_no_match:
  assumes "\<forall>d\<in>set c. userWalletAddress d \<noteq> Str addr"
  shows "gallery_part_000 None c addr = success_reply (Docs [])
    \<and> (addr \<noteq> [] \<longrightarrow>
         gallery_part_001 None c addr
           = error_response 404 ''No NFTs found for this wallet address'')"
proof -
  from assms have "filter (\<lambda>d. userWalletAddress d = Str addr) c = []"
    by (simp add: filter_empty_conv)
  then show ?thesis
    by (simp add: gallery_part_000_def gallery_part_001_def find_toArray_def
        find_sort_toArray_def success_reply_def)
qed

text \<open>A wallet that owns none of the four sample documents.\<close>

theorem listByWallet_no_match_witness:
  "''0x999'' \<noteq> []
   \<and> gallery_part_000 None gallery_sample ''0x999'' = success_reply (Docs [])
   \<and> code (gallery_part_000 None gallery_sample ''0x999'') = 200
   \<and> gallery_part_001 None gallery_sample ''0x999''
       = error_response 404 ''No NFTs found for this wallet address''"
proof -
  have h: "\<forall>d\<in>set gallery_sample. userWalletAddress d \<noteq> Str ''0x999''"
    by (simp add: gallery_sample_def sample_doc_fields)
  show ?thesis
    using listByWallet_no_match [OF h]
    by (simp add: success_reply_def)
qed

section \<open>Lookup by a non-numeric identifier\<close>

text \<open>
  C7 (as amended). Let the path parameter coerce to NaN. \<^verbatim>\<open>part_001\<close> answers 400,
  invalid format, whatever the collection holds and whatever the driver would do, so
  without the answer of a query. \<^verbatim>\<open>part_000\<close> looks NaN up: when the lookup resolves
  and no stored document has the \<open>nftId\<close> NaN it answers 404, and a stored document whose
  \<open>nftId\<close> is NaN is returned with 200.
\<close>

theorem getById_non_numeric:
  assumes "isNaN (Number rest (Str param))"
  shows "(\<forall>throws c. get_nft_part_001 rest throws c param
            = error_response 400 ''Invalid NFT ID format'')
    \<and> (\<forall>c::collection. (\<forall>d\<in>set c. nftId d \<noteq> NaN) \<longrightarrow>
          get_nft_part_000 rest None c param = error_response 404 ''NFT not found'')
    \<and> (\<forall>(c::collection) d. List.find (\<lambda>d. nftId d = NaN) c = Some d \<longrightarrow>
          get_nft_part_000 rest None c param = success_reply (Doc d))"
proof (intro conjI allI impI)
  fix throws c
  from assms show "get_nft_part_001 rest throws c param
      = error_response 400 ''Invalid NFT ID format''"
    by (simp add: get_nft_part_001_def Let_def del: Number.simps)
next
  fix c :: collection assume "\<forall>d\<in>set c. nftId d \<noteq> NaN"
  then have "List.find (\<lambda>d. nftId d = NaN) c = None"
    by (simp add: find_None_iff)
  with assms show "get_nft_part_000 rest None c param = error_response 404 ''NFT not found''"
    by (simp add: get_nft_part_000_def isNaN_def findOne_def del: Number.simps)
next
  fix c :: collection and d assume "List.find (\<lambda>d. nftId d = NaN) c = Some d"
  with assms show "get_nft_part_000 rest None c param = success_reply (Doc d)"
    by (simp add: get_nft_part_000_def isNaN_def findOne_def success_reply_def
        del: Number.simps)
qed

text \<open>\<^verbatim>\<open>GET /api/nft/abc\<close> against the stored scenario record.\<close>

theorem getById_non_numeric_witness:
  "isNaN (Number no_further_literals (Str ''abc''))
   \<and> get_nft_part_001 no_further_literals (Some ''down'') [sample_doc (Fin 1) 1000 1] ''abc''
       = error_response 400 ''Invalid NFT ID format''
   \<and> get_nft_part_000 no_further_literals None [sample_doc (Fin 1) 1000 1] ''abc''
       = error_response 404 ''NFT not found''"
proof -
  have h: "isNaN (Number no_further_literals (Str ''abc''))"
    by (simp add: isNaN_def Number_abc del: Number.simps)
  show ?thesis
    using getById_non_numeric [OF h] h
    by (simp add: sample_doc_fields)
qed

text \<open>
  As stated, with 404 for every parameter that coerces to NaN, the property fails in
  \<^verbatim>\<open>part_000\<close>: its store handler keeps the body with \<open>nftId\<close> \<^verbatim>\<open>"abc"\<close> as a document
  with \<open>nftId\<close> NaN, and \<^verbatim>\<open>GET /api/nft/abc\<close> returns that document with 200.
\<close>

theorem getById_non_numeric_counterexample:
  "isNaN (Number no_further_literals (Str ''abc''))
   \<and> snd (store_part_000 no_further_literals sample_env [] (sample_body\<lparr>nftId := Str ''abc''\<rparr>))
       = [sample_doc NaN 1000 1]
   \<and> get_nft_part_000 no_further_literals None [sample_doc NaN 1000 1] ''abc''
       = success_reply (Doc (sample_doc NaN 1000 1))
   \<and> code (get_nft_part_000 no_further_literals None [sample_doc NaN 1000 1] ''abc'') \<noteq> 404"
proof -
  have p: "all_present (sample_body\<lparr>nftId := Str ''abc''\<rparr>)"
    by (simp add: all_present_def sample_body_fields)
  have d: "new_document no_further_literals sample_env (sample_body\<lparr>nftId := Str ''abc''\<rparr>)
      = sample_doc NaN 1000 1"
    by (simp add: new_document_def sample_doc_def sample_body_fields sample_env_fields
        Number_abc del: Number.simps)
  have s: "snd (store_part_000 no_further_literals sample_env []
        (sample_body\<lparr>nftId := Str ''abc''\<rparr>)) = [sample_doc NaN 1000 1]"
    using store_part_000_creates [OF p sample_env_fields(4), of no_further_literals "[]"]
    by (simp add: d)
  have g: "get_nft_part_000 no_further_literals None [sample_doc NaN 1000 1] ''abc''
      = success_reply (Doc (sample_doc NaN 1000 1))"
    by (simp add: Number_abc get_nft_part_000_def findOne_def sample_doc_fields
        success_reply_def del: Number.simps)
  have h: "isNaN (Number no_further_literals (Str ''abc''))"
    by (simp add: isNaN_def Number_abc del: Number.simps)
  from h s g show ?thesis by (simp add: success_reply_def)
qed

section \<open>Connecting with retries\<close>

lemma failed_rounds_same: "failed_rounds k k = []"
  by (simp add: failed_rounds_def)

lemma failed_rounds_step:
  "i < k \<Longrightarrow> failed_rounds i k = [Attempt i, Sleep 5000] @ failed_rounds (Suc i) k"
  by (simp add: failed_rounds_def upt_conv_Cons)

lemma attempts_failed_rounds: "i \<le> k \<Longrightarrow> attempts (failed_rounds i k) = k - i"
proof (induction "k - i" arbitrary: i)
  case 0
  then show ?case by (simp add: failed_rounds_same attempts_def)
next
  case (Suc n)
  then have lt: "i < k" and n: "n = k - Suc i" by simp_all
  from Suc.hyps(1) [OF n] lt have "attempts (failed_rounds (Suc i) k) = k - Suc i" by simp
  with lt show ?case
    by (simp add: failed_rounds_step attempts_def)
qed

lemma attempts_trace: "attempts (failed_rounds 0 k @ [Attempt k]) = Suc k"
  using attempts_failed_rounds [of 0 k] by (simp add: attempts_def)

lemma loop_skips_failures:
  assumes "i \<le> k" and "k < retries" and "\<forall>j. i \<le> j \<and> j < k \<longrightarrow> tries j \<noteq> None"
  shows "connectToMongo_loop tries retries i st =
    connectToMongo_loop tries retries k (st\<lparr>trace := trace st @ failed_rounds i k\<rparr>)"
  using assms
proof (induction "k - i" arbitrary: i st)
  case 0
  then have "i = k" by simp
  then show ?case by (simp add: failed_rounds_same)
next
  case (Suc n)
  then have lt: "i < k" and n: "n = k - Suc i" by simp_all
  from Suc.prems(3) lt obtain e where e: "tries i = Some e" by (cases "tries i") auto
  have notlast: "i \<noteq> retries - 1" using lt Suc.prems(2) by simp
  have "connectToMongo_loop tries retries i st =
      connectToMongo_loop tries retries (Suc i) (st\<lparr>trace := trace st @ [Attempt i, Sleep 5000]\<rparr>)"
    using e notlast lt Suc.prems(2)
    by (subst connectToMongo_loop.simps) simp
  also have "\<dots> = connectToMongo_loop tries retries k
      (st\<lparr>trace := trace st @ [Attempt i, Sleep 5000] @ failed_rounds (Suc i) k\<rparr>)"
    using Suc.hyps(1) [OF n, of "st\<lparr>trace := trace st @ [Attempt i, Sleep 5000]\<rparr>"]
      lt Suc.prems(2,3)
    by simp
  finally show ?case using lt by (simp add: failed_rounds_step)
qed

lemma connect_first_success:
  assumes "k < retries" and "tries k = None" and "\<forall>j<k. tries j \<noteq> None"
  shows "connectToMongo tries retries =
    (Inr True, \<lparr>db = True, trace = failed_rounds 0 k @ [Attempt k]\<rparr>)"
proof -
  have "connectToMongo tries retries =
      connectToMongo_loop tries retries k \<lparr>db = False, trace = failed_rounds 0 k\<rparr>"
    unfolding connectToMongo_def
    using loop_skips_failures [of 0 k retries tries "\<lparr>db = False, trace = []\<rparr>"] assms
    by simp
  also have "\<dots> = (Inr True, \<lparr>db = True, trace = failed_rounds 0 k @ [Attempt k]\<rparr>)"
    using assms(1,2) by (subst connectToMongo_loop.simps) simp
  finally show ?thesis .
qed

lemma connect_all_fail:
  assumes "1 \<le> retries" and "tries (retries - 1) = Some e" and "\<forall>j<retries. tries j \<noteq> None"
  shows "connectToMongo tries retries =
    (Inl e, \<lparr>db = False, trace = failed_rounds 0 (retries - 1) @ [Attempt (retries - 1)]\<rparr>)"
proof -
  let ?k = "retries - 1"
  have k: "?k < retries" using assms(1) by simp
  have "connectToMongo tries retries =
      connectToMongo_loop tries retries ?k \<lparr>db = False, trace = failed_rounds 0 ?k\<rparr>"
    unfolding connectToMongo_def
    using loop_skips_failures [of 0 ?k retries tries "\<lparr>db = False, trace = []\<rparr>"] assms(3) k
    by simp
  also have "\<dots> = (Inl e, \<lparr>db = False, trace = failed_rounds 0 ?k @ [Attempt ?k]\<rparr>)"
    using k assms(2) by (subst connectToMongo_loop.simps) simp
  finally show ?thesis .
qed

lemma failed_rounds_0_2: "failed_rounds 0 2 = [Attempt 0, Sleep 5000, Attempt 1, Sleep 5000]"
  by (simp add: failed_rounds_def upt_rec)

text \<open>
  C8. For \<open>retries \<ge> 1\<close> the loop ends, the model being a total function, and never by
  falling out of the loop. It makes at most \<open>retries\<close> attempts. When attempt \<open>k\<close>
  (counted from 0) is the first to succeed, it returns true after exactly \<open>k + 1\<close>
  attempts, each failed one followed by the wait and the successful one by nothing. When
  all \<open>retries\<close> attempts fail, it throws the error of the last one after exactly
  \<open>retries\<close> attempts, having waited between consecutive attempts and not after the last.
\<close>

theorem connectToMongo_retries:
  assumes "1 \<le> retries"
  shows "attempts (trace (snd (connectToMongo tries retries))) \<le> retries
    \<and> fst (connectToMongo tries retries) \<noteq> Inr False
    \<and> (\<forall>k<retries. tries k = None \<and> (\<forall>j<k. tries j \<noteq> None) \<longrightarrow>
          connectToMongo tries retries
            = (Inr True, \<lparr>db = True, trace = failed_rounds 0 k @ [Attempt k]\<rparr>)
          \<and> attempts (trace (snd (connectToMongo tries retries))) = k + 1)
    \<and> ((\<forall>j<retries. tries j \<noteq> None) \<longrightarrow>
          (\<exists>error. tries (retries - 1) = Some error
             \<and> connectToMongo tries retries
                 = (Inl error, \<lparr>db = False,
                      trace = failed_rounds 0 (retries - 1) @ [Attempt (retries - 1)]\<rparr>))
          \<and> attempts (trace (snd (connectToMongo tries retries))) = retries)"
proof -
  have succ: "connectToMongo tries retries
        = (Inr True, \<lparr>db = True, trace = failed_rounds 0 k @ [Attempt k]\<rparr>)
      \<and> attempts (trace (snd (connectToMongo tries retries))) = k + 1"
    if "k < retries" "tries k = None" "\<forall>j<k. tries j \<noteq> None" for k
    using connect_first_success [OF that] by (simp add: attempts_trace)
  have fail: "(\<exists>error. tries (retries - 1) = Some error
        \<and> connectToMongo tries retries
            = (Inl error, \<lparr>db = False,
                 trace = failed_rounds 0 (retries - 1) @ [Attempt (retries - 1)]\<rparr>))
      \<and> attempts (trace (snd (connectToMongo tries retries))) = retries"
    if all: "\<forall>j<retries. tries j \<noteq> None"
  proof -
    from assms have "retries - 1 < retries" by simp
    with all have "tries (retries - 1) \<noteq> None" by blast
    then obtain e where e: "tries (retries - 1) = Some e" by blast
    from connect_all_fail [OF assms e all] e assms show ?thesis
      by (simp add: attempts_trace)
  qed
  have bound: "attempts (trace (snd (connectToMongo tries retries))) \<le> retries
      \<and> fst (connectToMongo tries retries) \<noteq> Inr False"
  proof (cases "\<exists>k<retries. tries k = None")
    case True
    define k where "k = (LEAST k. k < retries \<and> tries k = None)"
    from True have "\<exists>k. k < retries \<and> tries k = None" by blast
    then have kk: "k < retries \<and> tries k = None"
      unfolding k_def by (rule LeastI_ex)
    have least: "\<forall>j<k. tries j \<noteq> None"
    proof (intro allI impI notI)
      fix j assume jk: "j < k" and tj: "tries j = None"
      from jk kk have "j < retries" by simp
      with tj have "j < retries \<and> tries j = None" by simp
      then have "k \<le> j" unfolding k_def by (rule Least_le)
      with jk show False by simp
    qed
    from kk have k1: "k < retries" and k2: "tries k = None" by simp_all
    from succ [OF k1 k2 least] have eq: "connectToMongo tries retries
        = (Inr True, \<lparr>db = True, trace = failed_rounds 0 k @ [Attempt k]\<rparr>)"
      and at: "attempts (trace (snd (connectToMongo tries retries))) = k + 1"
      by (rule conjunct1, rule conjunct2)
    from at k1 have "attempts (trace (snd (connectToMongo tries retries))) \<le> retries" by simp
    moreover from eq have "fst (connectToMongo tries retries) \<noteq> Inr False" by simp
    ultimately show ?thesis by simp
  next
    case False
    then have all: "\<forall>j<retries. tries j \<noteq> None" by simp
    from fail [OF all] obtain e where eq: "connectToMongo tries retries
        = (Inl e, \<lparr>db = False,
             trace = failed_rounds 0 (retries - 1) @ [Attempt (retries - 1)]\<rparr>)"
      and at: "attempts (trace (snd (connectToMongo tries retries))) = retries"
      by (elim conjE exE)
    from at have "attempts (trace (snd (connectToMongo tries retries))) \<le> retries" by simp
    moreover from eq have "fst (connectToMongo tries retries) \<noteq> Inr False" by simp
    ultimately show ?thesis by simp
  qed
  show ?thesis
  proof (intro conjI allI impI)
    from bound show "attempts (trace (snd (connectToMongo tries retries))) \<le> retries"
      by (rule conjunct1)
    from bound show "fst (connectToMongo tries retries) \<noteq> Inr False"
      by (rule conjunct2)
  next
    fix k assume k: "k < retries" and h: "tries k = None \<and> (\<forall>j<k. tries j \<noteq> None)"
    from h have h1: "tries k = None" and h2: "\<forall>j<k. tries j \<noteq> None" by simp_all
    from succ [OF k h1 h2]
    show "connectToMongo tries retries
        = (Inr True, \<lparr>db = True, trace = failed_rounds 0 k @ [Attempt k]\<rparr>)"
      by (rule conjunct1)
    from succ [OF k h1 h2]
    show "attempts (trace (snd (connectToMongo tries retries))) = k + 1"
      by (rule conjunct2)
  next
    assume all: "\<forall>j<retries. tries j \<noteq> None"
    from fail [OF all]
    show "\<exists>error. tries (retries - 1) = Some error
        \<and> connectToMongo tries retries
            = (Inl error, \<lparr>db = False,
                 trace = failed_rounds 0 (retries - 1) @ [Attempt (retries - 1)]\<rparr>)"
      by (rule conjunct1)
    from fail [OF all]
    show "attempts (trace (snd (connectToMongo tries retries))) = retries"
      by (rule conjunct2)
  qed
qed

text \<open>Five retries: success at the third attempt, and five refusals.\<close>

theorem connectToMongo_retries_witness:
  "(1::nat) \<le> 5
   \<and> connectToMongo third_try_succeeds 5
       = (Inr True, \<lparr>db = True,
            trace = [Attempt 0, Sleep 5000, Attempt 1, Sleep 5000, Attempt 2]\<rparr>)
   \<and> attempts (trace (snd (connectToMongo third_try_succeeds 5))) = 3
   \<and> connectToMongo always_refused 5
       = (Inl ''refused at last'', \<lparr>db = False,
            trace = [Attempt 0, Sleep 5000, Attempt 1, Sleep 5000, Attempt 2, Sleep 5000,
                     Attempt 3, Sleep 5000, Attempt 4]\<rparr>)
   \<and> attempts (trace (snd (connectToMongo always_refused 5))) = 5"
proof -
  have h: "(1::nat) \<le> 5" by simp
  have s: "(2::nat) < 5 \<and> third_try_succeeds 2 = None \<and> (\<forall>j<2. third_try_succeeds j \<noteq> None)"
    by (simp add: third_try_succeeds_def)
  have f: "\<forall>j<5. always_refused j \<noteq> None"
    by (simp add: always_refused_def)
  have l: "always_refused (5 - 1) = Some ''refused at last''"
    by (simp add: always_refused_def)
  have r4: "failed_rounds 0 (5 - 1)
      = [Attempt 0, Sleep 5000, Attempt 1, Sleep 5000, Attempt 2, Sleep 5000, Attempt 3, Sleep 5000]"
    by (simp add: failed_rounds_def upt_rec)
  from connectToMongo_retries [OF h, of third_try_succeeds] s
  have a: "connectToMongo third_try_succeeds 5
        = (Inr True, \<lparr>db = True, trace = failed_rounds 0 2 @ [Attempt 2]\<rparr>)
      \<and> attempts (trace (snd (connectToMongo third_try_succeeds 5))) = 2 + 1"
    by blast
  from connectToMongo_retries [OF h, of always_refused] f
  have b: "(\<exists>error. always_refused (5 - 1) = Some error
        \<and> connectToMongo always_refused 5
            = (Inl error, \<lparr>db = False, trace = failed_rounds 0 (5 - 1) @ [Attempt (5 - 1)]\<rparr>))
      \<and> attempts (trace (snd (connectToMongo always_refused 5))) = 5"
    by blast
  from a b l r4 show ?thesis
    by (auto simp: failed_rounds_0_2)
qed

section \<open>Requests with a falsy field\<close>

text \<open>
  C9 (as amended). A store request in which any of the five fields is falsy (absent,
  null, false, the number 0 or NaN, the empty string) is answered 400 by each of the three
  handlers and nothing is stored; in particular a request whose \<open>nftId\<close> is the number 0
  is always rejected.
\<close>

theorem falsy_field_rejected:
  "(\<not> truthy (nftId b) \<or> \<not> truthy (name b) \<or> \<not> truthy (description b)
      \<or> \<not> truthy (logoUrl b) \<or> \<not> truthy (userWalletAddress b) \<longrightarrow>
      store_index rest env c b = (error_response 400 all_fields_required, c)
      \<and> store_part_000 rest env c b = (error_response 400 all_fields_required, c)
      \<and> store_part_001 rest env c b = (error_response 400 all_fields_required, c))
   \<and> (nftId b = Num (Fin 0) \<longrightarrow>
      store_index rest env c b = (error_response 400 all_fields_required, c)
      \<and> store_part_000 rest env c b = (error_response 400 all_fields_required, c)
      \<and> store_part_001 rest env c b = (error_response 400 all_fields_required, c))"
proof (intro conjI impI)
  assume "\<not> truthy (nftId b) \<or> \<not> truthy (name b) \<or> \<not> truthy (description b)
      \<or> \<not> truthy (logoUrl b) \<or> \<not> truthy (userWalletAddress b)"
  then have n: "\<not> all_present b" by (auto simp: all_present_def)
  from n show "store_index rest env c b = (error_response 400 all_fields_required, c)"
    by (rule store_index_rejects)
  from n show "store_part_000 rest env c b = (error_response 400 all_fields_required, c)"
    by (rule store_part_000_rejects)
  from n show "store_part_001 rest env c b = (error_response 400 all_fields_required, c)"
    by (rule store_part_001_rejects)
next
  assume "nftId b = Num (Fin 0)"
  then have n: "\<not> all_present b" by (simp add: all_present_def)
  from n show "store_index rest env c b = (error_response 400 all_fields_required, c)"
    by (rule store_index_rejects)
  from n show "store_part_000 rest env c b = (error_response 400 all_fields_required, c)"
    by (rule store_part_000_rejects)
  from n show "store_part_001 rest env c b = (error_response 400 all_fields_required, c)"
    by (rule store_part_001_rejects)
qed

text \<open>An empty \<open>logoUrl\<close>, and the \<open>nftId\<close> 0.\<close>

theorem falsy_field_rejected_witness:
  "\<not> truthy (logoUrl (sample_body\<lparr>logoUrl := Str ''''\<rparr>))
   \<and> store_part_000 no_further_literals sample_env [] (sample_body\<lparr>logoUrl := Str ''''\<rparr>)
       = (error_response 400 all_fields_required, [])
   \<and> nftId (sample_body\<lparr>nftId := Num (Fin 0)\<rparr>) = Num (Fin 0)
   \<and> store_index no_further_literals sample_env [] (sample_body\<lparr>nftId := Num (Fin 0)\<rparr>)
       = (error_response 400 all_fields_required, [])"
proof -
  have a: "\<not> truthy (logoUrl (sample_body\<lparr>logoUrl := Str ''''\<rparr>))" by simp
  have b: "nftId (sample_body\<lparr>nftId := Num (Fin 0)\<rparr>) = Num (Fin 0)" by simp
  from a b
    falsy_field_rejected [of "sample_body\<lparr>logoUrl := Str ''''\<rparr>" no_further_literals sample_env "[]"]
    falsy_field_rejected [of "sample_body\<lparr>nftId := Num (Fin 0)\<rparr>" no_further_literals sample_env "[]"]
  show ?thesis by blast
qed

text \<open>
  That a record with \<open>nftId\<close> 0 can never be created fails: the string \<^verbatim>\<open>"0"\<close> is
  truthy, coerces to 0, and is stored with 201.
\<close>

theorem nftId_zero_counterexample:
  "all_present (sample_body\<lparr>nftId := Str ''0''\<rparr>)
   \<and> store_index no_further_literals sample_env [] (sample_body\<lparr>nftId := Str ''0''\<rparr>)
       = (created_reply (Some (InsertedId 1)), [sample_doc (Fin 0) 1000 1])
   \<and> nftId (sample_doc (Fin 0) 1000 1) = Fin 0"
proof -
  have p: "all_present (sample_body\<lparr>nftId := Str ''0''\<rparr>)"
    by (simp add: all_present_def sample_body_fields)
  have d: "new_document no_further_literals sample_env (sample_body\<lparr>nftId := Str ''0''\<rparr>)
      = sample_doc (Fin 0) 1000 1"
    by (simp add: new_document_def sample_doc_def sample_body_fields sample_env_fields
        Number_digit_0 del: Number.simps)
  have s: "store_index no_further_literals sample_env [] (sample_body\<lparr>nftId := Str ''0''\<rparr>)
      = (created_reply (Some (InsertedId (insertedId sample_env))),
         [] @ [new_document no_further_literals sample_env (sample_body\<lparr>nftId := Str ''0''\<rparr>)])"
    by (rule store_index_creates) (simp_all add: p sample_env_fields)
  show ?thesis by (simp add: p s d sample_env_fields sample_doc_fields)
qed

section \<open>One coercion for every use of the identifier\<close>

lemma store_index_appends:
  "snd (store_index rest env c b) = c \<or> snd (store_index rest env c b) = c @ [new_document rest env b]"
  by (simp add: store_index_def findOne_def insertOne_def split: option.splits sum.splits)

lemma store_part_001_appends:
  "snd (store_part_001 rest env c b) = c \<or> snd (store_part_001 rest env c b) = c @ [new_document rest env b]"
  by (simp add: store_part_001_def findOne_def insertOne_def split: option.splits sum.splits)

lemma store_part_000_appends:
  "snd (store_part_000 rest env c b) = c \<or> snd (store_part_000 rest env c b) = c @ [new_document rest env b]"
  by (simp add: store_part_000_def insertOne_def split: option.splits sum.splits)

lemma new_document_cong:
  "Number rest v = Number rest w \<Longrightarrow>
     new_document rest env (b\<lparr>nftId := v\<rparr>) = new_document rest env (b\<lparr>nftId := w\<rparr>)"
  by (simp add: new_document_def)

lemma store_index_cong:
  assumes "truthy v = truthy w" "Number rest v = Number rest w"
  shows "store_index rest env c (b\<lparr>nftId := v\<rparr>) = store_index rest env c (b\<lparr>nftId := w\<rparr>)"
  using assms new_document_cong [OF assms(2), of env b]
  by (simp add: store_index_def split: sum.splits option.splits)

lemma store_part_001_cong:
  assumes "truthy v = truthy w" "Number rest v = Number rest w"
  shows "store_part_001 rest env c (b\<lparr>nftId := v\<rparr>) = store_part_001 rest env c (b\<lparr>nftId := w\<rparr>)"
  using assms new_document_cong [OF assms(2), of env b]
  by (simp add: store_part_001_def split: sum.splits option.splits)

lemma store_part_000_cong:
  assumes "truthy v = truthy w" "Number rest v = Number rest w"
  shows "store_part_000 rest env c (b\<lparr>nftId := v\<rparr>) = store_part_000 rest env c (b\<lparr>nftId := w\<rparr>)"
  using assms new_document_cong [OF assms(2), of env b]
  by (simp add: store_part_000_def split: sum.splits option.splits)

lemma Number_digit_07: "Number rest (Str ''07'') = Fin 7"
  by (simp add: StringToNumber_def is_digit_def decimal_value_def digit_value_def)

lemma store_index_conflict_iff:
  assumes "all_present b" "findOne_throws env = None"
  shows "(store_index rest env c b = (error_response 400 ''NFT with this ID already exists'', c))
    = (\<exists>d\<in>set c. nftId d = Number rest (nftId b))"
proof (cases "List.find (\<lambda>d. nftId d = Number rest (nftId b)) c")
  case None
  then have no: "\<not> (\<exists>d\<in>set c. nftId d = Number rest (nftId b))"
    by (simp add: find_None_iff)
  from None assms have "store_index rest env c b
      \<noteq> (error_response 400 ''NFT with this ID already exists'', c)"
    by (simp add: store_index_def all_present_def findOne_def insertOne_def error_response_def
        split: option.splits)
  with no show ?thesis by simp
next
  case (Some e)
  from find_SomeD [OF Some] have yes: "\<exists>d\<in>set c. nftId d = Number rest (nftId b)"
    by blast
  from Some assms have "store_index rest env c b
      = (error_response 400 ''NFT with this ID already exists'', c)"
    by (simp add: store_index_def all_present_def findOne_def)
  with yes show ?thesis by simp
qed

lemma store_part_001_conflict_iff:
  assumes "all_present b" "findOne_throws env = None"
  shows "(store_part_001 rest env c b = (error_response 400 ''NFT with this ID already exists'', c))
    = (\<exists>d\<in>set c. nftId d = Number rest (nftId b))"
proof (cases "List.find (\<lambda>d. nftId d = Number rest (nftId b)) c")
  case None
  then have no: "\<not> (\<exists>d\<in>set c. nftId d = Number rest (nftId b))"
    by (simp add: find_None_iff)
  from None assms have "store_part_001 rest env c b
      \<noteq> (error_response 400 ''NFT with this ID already exists'', c)"
    by (simp add: store_part_001_def all_present_def findOne_def insertOne_def error_response_def
        split: option.splits)
  with no show ?thesis by simp
next
  case (Some e)
  from find_SomeD [OF Some] have yes: "\<exists>d\<in>set c. nftId d = Number rest (nftId b)"
    by blast
  from Some assms have "store_part_001 rest env c b
      = (error_response 400 ''NFT with this ID already exists'', c)"
    by (simp add: store_part_001_def all_present_def findOne_def)
  with yes show ?thesis by simp
qed

lemma get_nft_part_001_found_iff:
  assumes "Number rest (Str p) = n" "n \<noteq> NaN"
  shows "(code (get_nft_part_001 rest None c p) = 200) = (\<exists>d\<in>set c. nftId d = n)"
proof (cases "List.find (\<lambda>d. nftId d = n) c")
  case None
  then have no: "\<not> (\<exists>d\<in>set c. nftId d = n)" by (simp add: find_None_iff)
  from None assms have "code (get_nft_part_001 rest None c p) = 404"
    by (simp add: get_nft_part_001_def isNaN_def findOne_def error_response_def Let_def
        del: Number.simps)
  with no show ?thesis by simp
next
  case (Some e)
  from find_SomeD [OF Some] have yes: "\<exists>d\<in>set c. nftId d = n" by blast
  from Some assms have "code (get_nft_part_001 rest None c p) = 200"
    by (simp add: get_nft_part_001_def isNaN_def findOne_def Let_def del: Number.simps)
  with yes show ?thesis by simp
qed

lemma get_nft_part_000_found_iff:
  assumes "Number rest (Str p) = n"
  shows "(code (get_nft_part_000 rest None c p) = 200) = (\<exists>d\<in>set c. nftId d = n)"
proof (cases "List.find (\<lambda>d. nftId d = n) c")
  case None
  then have no: "\<not> (\<exists>d\<in>set c. nftId d = n)" by (simp add: find_None_iff)
  from None assms have "code (get_nft_part_000 rest None c p) = 404"
    by (simp add: get_nft_part_000_def findOne_def error_response_def del: Number.simps)
  with no show ?thesis by simp
next
  case (Some e)
  from find_SomeD [OF Some] have yes: "\<exists>d\<in>set c. nftId d = n" by blast
  from Some assms have "code (get_nft_part_000 rest None c p) = 200"
    by (simp add: get_nft_part_000_def findOne_def del: Number.simps)
  with yes show ?thesis by simp
qed

text \<open>
  C10 (as amended). Every document a store handler adds has the \<open>nftId\<close> \<open>Number\<close> of
  the raw input, a value of the number type, and a request that passes the presence test
  and meets no stored document with that number is stored under it. The existence check
  of \<^verbatim>\<open>index.js\<close> and of \<^verbatim>\<open>part_001\<close> reports a conflict exactly when a stored document
  carries \<open>Number\<close> of the raw input, which is exactly when the lookup of a path parameter
  with the same coercion succeeds. Two raw values that coerce to the same number, and of
  which both or neither pass the presence test, give the same reply and the same
  collection in every store handler; two path parameters that coerce to the same number
  give the same lookup.
\<close>

theorem nftId_coerced_throughout:
  "(\<forall>d. d \<in> set (snd (store_index rest env c b)) \<or> d \<in> set (snd (store_part_000 rest env c b))
        \<or> d \<in> set (snd (store_part_001 rest env c b)) \<longrightarrow>
        d \<in> set c \<or> nftId d = Number rest (nftId b))
   \<and> nftId (new_document rest env b) = Number rest (nftId b)
   \<and> (all_present b \<and> findOne_throws env = None \<and> insertOne_throws env = None
        \<and> (\<forall>d\<in>set c. nftId d \<noteq> Number rest (nftId b)) \<longrightarrow>
        store_index rest env c b
          = (created_reply (Some (InsertedId (insertedId env))), c @ [new_document rest env b])
        \<and> store_part_001 rest env c b
          = (created_reply (Some (InsertedId (insertedId env))), c @ [new_document rest env b]))
   \<and> (all_present b \<and> insertOne_throws env = None \<longrightarrow>
        store_part_000 rest env c b = (created_reply None, c @ [new_document rest env b]))
   \<and> (all_present b \<and> findOne_throws env = None \<longrightarrow>
        (store_index rest env c b = (error_response 400 ''NFT with this ID already exists'', c))
          = (\<exists>d\<in>set c. nftId d = Number rest (nftId b))
        \<and> (store_part_001 rest env c b
              = (error_response 400 ''NFT with this ID already exists'', c))
          = (\<exists>d\<in>set c. nftId d = Number rest (nftId b)))
   \<and> (all_present b \<and> findOne_throws env = None
        \<and> Number rest (Str p) = Number rest (nftId b) \<longrightarrow>
        (store_index rest env c b = (error_response 400 ''NFT with this ID already exists'', c))
          = (code (get_nft_part_000 rest None c p) = 200)
        \<and> (Number rest (nftId b) \<noteq> NaN \<longrightarrow>
            (store_index rest env c b
               = (error_response 400 ''NFT with this ID already exists'', c))
              = (code (get_nft_part_001 rest None c p) = 200)
            \<and> (store_part_001 rest env c b
                 = (error_response 400 ''NFT with this ID already exists'', c))
              = (code (get_nft_part_001 rest None c p) = 200)))
   \<and> (truthy v = truthy w \<and> Number rest v = Number rest w \<longrightarrow>
        store_index rest env c (b\<lparr>nftId := v\<rparr>) = store_index rest env c (b\<lparr>nftId := w\<rparr>)
        \<and> store_part_000 rest env c (b\<lparr>nftId := v\<rparr>) = store_part_000 rest env c (b\<lparr>nftId := w\<rparr>)
        \<and> store_part_001 rest env c (b\<lparr>nftId := v\<rparr>) = store_part_001 rest env c (b\<lparr>nftId := w\<rparr>))
   \<and> (Number rest (Str p) = Number rest (Str q) \<longrightarrow>
        get_nft_part_000 rest throws c p = get_nft_part_000 rest throws c q
        \<and> get_nft_part_001 rest throws c p = get_nft_part_001 rest throws c q)"
proof -
  have added: "d \<in> set c \<or> nftId d = Number rest (nftId b)"
    if "d \<in> set (snd (store_index rest env c b)) \<or> d \<in> set (snd (store_part_000 rest env c b))
        \<or> d \<in> set (snd (store_part_001 rest env c b))" for d
  proof -
    from that store_index_appends [of rest env c b] store_part_000_appends [of rest env c b]
      store_part_001_appends [of rest env c b]
    have "d \<in> set c \<or> d = new_document rest env b" by auto
    then show ?thesis using nftId_new_document by blast
  qed
  have creates: "store_index rest env c b
          = (created_reply (Some (InsertedId (insertedId env))), c @ [new_document rest env b])
        \<and> store_part_001 rest env c b
          = (created_reply (Some (InsertedId (insertedId env))), c @ [new_document rest env b])"
    if "all_present b \<and> findOne_throws env = None \<and> insertOne_throws env = None
        \<and> (\<forall>d\<in>set c. nftId d \<noteq> Number rest (nftId b))"
  proof -
    from that have a: "all_present b" and f: "findOne_throws env = None"
      and i: "insertOne_throws env = None"
      and n: "\<forall>d\<in>set c. nftId d \<noteq> Number rest (nftId b)" by simp_all
    from store_index_creates [OF a n f i] store_part_001_creates [OF a n f i]
    show ?thesis by (rule conjI)
  qed
  have appends: "store_part_000 rest env c b = (created_reply None, c @ [new_document rest env b])"
    if "all_present b \<and> insertOne_throws env = None"
  proof -
    from that have a: "all_present b" and i: "insertOne_throws env = None" by simp_all
    from a i show ?thesis by (rule store_part_000_creates)
  qed
  have key: "(store_index rest env c b = (error_response 400 ''NFT with this ID already exists'', c))
          = (\<exists>d\<in>set c. nftId d = Number rest (nftId b))
        \<and> (store_part_001 rest env c b
              = (error_response 400 ''NFT with this ID already exists'', c))
          = (\<exists>d\<in>set c. nftId d = Number rest (nftId b))"
    if "all_present b \<and> findOne_throws env = None"
  proof -
    from that have a: "all_present b" and f: "findOne_throws env = None" by simp_all
    from store_index_conflict_iff [OF a f] store_part_001_conflict_iff [OF a f]
    show ?thesis by (rule conjI)
  qed
  have lookup: "(store_index rest env c b = (error_response 400 ''NFT with this ID already exists'', c))
          = (code (get_nft_part_000 rest None c p) = 200)
        \<and> (Number rest (nftId b) \<noteq> NaN \<longrightarrow>
            (store_index rest env c b
               = (error_response 400 ''NFT with this ID already exists'', c))
              = (code (get_nft_part_001 rest None c p) = 200)
            \<and> (store_part_001 rest env c b
                 = (error_response 400 ''NFT with this ID already exists'', c))
              = (code (get_nft_part_001 rest None c p) = 200))"
    if "all_present b \<and> findOne_throws env = None
        \<and> Number rest (Str p) = Number rest (nftId b)"
  proof -
    from that have a: "all_present b" and f: "findOne_throws env = None"
      and e: "Number rest (Str p) = Number rest (nftId b)" by simp_all
    note k0 = store_index_conflict_iff [OF a f, of rest c]
    note k1 = store_part_001_conflict_iff [OF a f, of rest c]
    note g0 = get_nft_part_000_found_iff [OF e, of c]
    have g1: "(code (get_nft_part_001 rest None c p) = 200)
        = (\<exists>d\<in>set c. nftId d = Number rest (nftId b))"
      if "Number rest (nftId b) \<noteq> NaN"
      using get_nft_part_001_found_iff [OF e that, of c] .
    from k0 k1 g0 g1 show ?thesis by blast
  qed
  have same_store: "store_index rest env c (b\<lparr>nftId := v\<rparr>) = store_index rest env c (b\<lparr>nftId := w\<rparr>)
        \<and> store_part_000 rest env c (b\<lparr>nftId := v\<rparr>) = store_part_000 rest env c (b\<lparr>nftId := w\<rparr>)
        \<and> store_part_001 rest env c (b\<lparr>nftId := v\<rparr>) = store_part_001 rest env c (b\<lparr>nftId := w\<rparr>)"
    if "truthy v = truthy w \<and> Number rest v = Number rest w"
  proof -
    from that have t: "truthy v = truthy w" and n: "Number rest v = Number rest w" by simp_all
    from store_index_cong [OF t n] store_part_000_cong [OF t n] store_part_001_cong [OF t n]
    show ?thesis by blast
  qed
  have same_get: "get_nft_part_000 rest throws c p = get_nft_part_000 rest throws c q
        \<and> get_nft_part_001 rest throws c p = get_nft_part_001 rest throws c q"
    if "Number rest (Str p) = Number rest (Str q)"
    using that
    by (simp add: get_nft_part_000_def get_nft_part_001_def del: Number.simps)
  show ?thesis
  proof (intro conjI allI impI)
    fix d
    assume "d \<in> set (snd (store_index rest env c b)) \<or> d \<in> set (snd (store_part_000 rest env c b))
        \<or> d \<in> set (snd (store_part_001 rest env c b))"
    then show "d \<in> set c \<or> nftId d = Number rest (nftId b)" by (rule added)
  next
    show "nftId (new_document rest env b) = Number rest (nftId b)"
      by (rule nftId_new_document)
  qed (use creates appends key lookup same_store same_get in blast)+
qed

text \<open>The string \<^verbatim>\<open>"7"\<close> and the number 7, into the empty collection and against a
  stored document with identifier 7.\<close>

theorem nftId_coerced_throughout_witness:
  "truthy (Str ''7'') = truthy (Num (Fin 7))
   \<and> Number no_further_literals (Str ''7'') = Number no_further_literals (Num (Fin 7))
   \<and> store_index no_further_literals sample_env [] (sample_body\<lparr>nftId := Str ''7''\<rparr>)
       = (created_reply (Some (InsertedId 1)), [sample_doc (Fin 7) 1000 1])
   \<and> store_index no_further_literals sample_env [sample_doc (Fin 7) 500 0]
        (sample_body\<lparr>nftId := Str ''7''\<rparr>)
       = store_index no_further_literals sample_env [sample_doc (Fin 7) 500 0]
        (sample_body\<lparr>nftId := Num (Fin 7)\<rparr>)
   \<and> store_index no_further_literals sample_env [sample_doc (Fin 7) 500 0]
        (sample_body\<lparr>nftId := Num (Fin 7)\<rparr>)
       = (error_response 400 ''NFT with this ID already exists'', [sample_doc (Fin 7) 500 0])
   \<and> Number no_further_literals (Str ''7'') = Number no_further_literals (Str ''07'')
   \<and> get_nft_part_001 no_further_literals None [sample_doc (Fin 7) 500 0] ''7''
       = get_nft_part_001 no_further_literals None [sample_doc (Fin 7) 500 0] ''07''
   \<and> all_present (sample_body\<lparr>nftId := Num (Fin 7)\<rparr>)
   \<and> code (get_nft_part_000 no_further_literals None [sample_doc (Fin 7) 500 0] ''7'') = 200
   \<and> code (get_nft_part_001 no_further_literals None [sample_doc (Fin 7) 500 0] ''7'') = 200"
proof -
  let ?c = "[sample_doc (Fin 7) 500 0]"
  let ?b = "sample_body\<lparr>nftId := Num (Fin 7)\<rparr>"
  let ?s = "sample_body\<lparr>nftId := Str ''7''\<rparr>"
  have t: "truthy (Str ''7'') = truthy (Num (Fin 7))" by simp
  have n: "Number no_further_literals (Str ''7'') = Number no_further_literals (Num (Fin 7))"
    using Number_digit_7 [of no_further_literals] by simp
  have m: "Number no_further_literals (Str ''7'') = Number no_further_literals (Str ''07'')"
    using Number_digit_7 [of no_further_literals] Number_digit_07 [of no_further_literals]
    by simp
  have p: "all_present ?b"
    by (simp add: all_present_def sample_body_fields)
  have ps: "all_present ?s"
    by (simp add: all_present_def sample_body_fields)
  have fresh: "\<forall>d\<in>set []. nftId d \<noteq> Number no_further_literals (nftId ?s)" by simp
  have stored: "\<exists>d\<in>set ?c. nftId d = Number no_further_literals (nftId ?b)"
    by (simp add: sample_doc_fields)
  have q: "Number no_further_literals (Str ''7'') = Number no_further_literals (nftId ?b)"
    using n by simp
  have r: "Number no_further_literals (nftId ?b) \<noteq> NaN" by simp
  have d: "new_document no_further_literals sample_env ?s = sample_doc (Fin 7) 1000 1"
    by (simp add: new_document_def sample_doc_def sample_body_fields sample_env_fields
        Number_digit_7 del: Number.simps)
  from ps fresh sample_env_fields(3,4)
    nftId_coerced_throughout [of no_further_literals sample_env "[]" ?s
      "''7''" "Str ''7''" "Num (Fin 7)" "''07''" None]
  have "store_index no_further_literals sample_env [] ?s
      = (created_reply (Some (InsertedId (insertedId sample_env))),
         [] @ [new_document no_further_literals sample_env ?s])"
    by blast
  then have created: "store_index no_further_literals sample_env [] ?s
      = (created_reply (Some (InsertedId 1)), [sample_doc (Fin 7) 1000 1])"
    by (simp add: d sample_env_fields)
  from t n m
    nftId_coerced_throughout [of no_further_literals sample_env ?c sample_body
      "''7''" "Str ''7''" "Num (Fin 7)" "''07''" None]
  have same: "store_index no_further_literals sample_env ?c ?s
        = store_index no_further_literals sample_env ?c ?b
      \<and> get_nft_part_001 no_further_literals None ?c ''7''
        = get_nft_part_001 no_further_literals None ?c ''07''"
    by blast
  from p q r stored sample_env_fields(3)
    nftId_coerced_throughout [of no_further_literals sample_env ?c ?b
      "''7''" "Str ''7''" "Num (Fin 7)" "''07''" None]
  have conflict: "store_index no_further_literals sample_env ?c ?b
        = (error_response 400 ''NFT with this ID already exists'', ?c)
      \<and> code (get_nft_part_000 no_further_literals None ?c ''7'') = 200
      \<and> code (get_nft_part_001 no_further_literals None ?c ''7'') = 200"
    by blast
  from t n m p created same conflict show ?thesis by blast
qed

text \<open>
  Without the condition on the presence test the property fails: the number 0 and the
  string \<^verbatim>\<open>"0"\<close> coerce to the same number, yet the presence test reads the raw value,
  so the first request is answered 400 and the second is stored with 201.
\<close>

theorem nftId_coerced_throughout_counterexample:
  "Number no_further_literals (Num (Fin 0)) = Number no_further_literals (Str ''0'')
   \<and> store_index no_further_literals sample_env [] (sample_body\<lparr>nftId := Num (Fin 0)\<rparr>)
       = (error_response 400 all_fields_required, [])
   \<and> store_index no_further_literals sample_env [] (sample_body\<lparr>nftId := Str ''0''\<rparr>)
       = (created_reply (Some (InsertedId 1)), [sample_doc (Fin 0) 1000 1])
   \<and> store_index no_further_literals sample_env [] (sample_body\<lparr>nftId := Num (Fin 0)\<rparr>)
       \<noteq> store_index no_further_literals sample_env [] (sample_body\<lparr>nftId := Str ''0''\<rparr>)"
proof -
  have n: "Number no_further_literals (Num (Fin 0)) = Number no_further_literals (Str ''0'')"
    using Number_digit_0 [of no_further_literals] by simp
  have r: "\<not> all_present (sample_body\<lparr>nftId := Num (Fin 0)\<rparr>)"
    by (simp add: all_present_def)
  have a: "store_index no_further_literals sample_env [] (sample_body\<lparr>nftId := Num (Fin 0)\<rparr>)
      = (error_response 400 all_fields_required, [])"
    using r by (rule store_index_rejects)
  have p: "all_present (sample_body\<lparr>nftId := Str ''0''\<rparr>)"
    by (simp add: all_present_def sample_body_fields)
  have d: "new_document no_further_literals sample_env (sample_body\<lparr>nftId := Str ''0''\<rparr>)
      = sample_doc (Fin 0) 1000 1"
    by (simp add: new_document_def sample_doc_def sample_body_fields sample_env_fields
        Number_digit_0 del: Number.simps)
  have s: "store_index no_further_literals sample_env [] (sample_body\<lparr>nftId := Str ''0''\<rparr>)
      = (created_reply (Some (InsertedId (insertedId sample_env))),
         [] @ [new_document no_further_literals sample_env (sample_body\<lparr>nftId := Str ''0''\<rparr>)])"
    by (rule store_index_creates) (simp_all add: p sample_env_fields)
  have b: "store_index no_further_literals sample_env [] (sample_body\<lparr>nftId := Str ''0''\<rparr>)
      = (created_reply (Some (InsertedId 1)), [sample_doc (Fin 0) 1000 1])"
    by (simp add: s d sample_env_fields)
  have ne: "store_index no_further_literals sample_env [] (sample_body\<lparr>nftId := Num (Fin 0)\<rparr>)
      \<noteq> store_index no_further_literals sample_env [] (sample_body\<lparr>nftId := Str ''0''\<rparr>)"
    unfolding a b by simp
  from n a b ne show ?thesis by blast
qed

end
